theory Spec2Isabelle
  imports Main
begin

section \<open>Values, errors and completions\<close>

text \<open>
  The module is a fluent builder over the browser's XMLHttpRequest. Two variants of the
  class are in the repository: the later one (with \<open>_async\<close>, \<open>_isOpen\<close>,
  \<open>openRequest\<close> and \<open>sendRequest\<close>) and the earlier one (no open flag, \<open>build\<close>).
  The later variant keeps the source's names; the earlier variant's definitions carry the
  prefix \<open>early_\<close>.

  A JavaScript exception is a value: \<open>Error msg\<close> is what \<open>throw Error(msg)\<close> raises,
  \<open>TypeError\<close> is what the runtime raises for a call of a non-function or a property read
  on \<open>undefined\<close>, \<open>DOMException name\<close> is what a primitive of the handle may raise.
\<close>

datatype error = Error string | TypeError | DOMException string

datatype 'a completion = Throw error | Return 'a

section \<open>Events, callbacks and listeners\<close>

text \<open>
  The fields of an event that the listeners read. \<open>target_status\<close> is
  \<open>evt.target.status\<close>: a number on the main handle, \<open>undefined\<close> (\<open>None\<close>) on
  a target without that property, such as the upload handle. \<open>loaded\<close> and \<open>total'\<close>
  are the values of \<open>evt.loaded\<close> and \<open>evt.total\<close>, the byte counts of a progress
  event: JavaScript numbers that are non-negative integers.
\<close>

record event =
  target_status :: "nat option"
  lengthComputable :: bool
  loaded :: nat
  total' :: nat

text \<open>
  JavaScript numbers are IEEE 754 doubles: 53 significant bits, every result rounded to the
  nearest double, ties to the even significand. Of them the listeners meet the non-negative
  integers, \<open>Infinity\<close> and \<open>NaN\<close>.
\<close>

datatype jsnum = Num nat | Infinity | NaN

text \<open>The number of binary digits of a natural number.\<close>

fun bits :: "nat \<Rightarrow> nat" where
  "bits n = (if n = 0 then 0 else Suc (bits (n div 2)))"

declare bits.simps [simp del]

text \<open>The quotient \<open>a / b\<close> rounded to the nearest integer, a tie going to the even one.\<close>

definition round_even :: "nat \<Rightarrow> nat \<Rightarrow> nat" where
  "round_even a b =
     (let q = a div b; r = a mod b
      in if 2 * r < b then q
         else if b < 2 * r then q + 1
         else if even q then q else q + 1)"

text \<open>
  The double nearest to a natural number: the number itself up to 53 bits, otherwise its
  leading 53 bits rounded; from \<open>2 ^ 1024 - 2 ^ 970\<close> on the result is \<open>Infinity\<close>.
\<close>

definition to_double :: "nat \<Rightarrow> jsnum" where
  "to_double p =
     (if bits p \<le> 53 then Num p
      else let e = bits p - 53; v = round_even p (2 ^ e) * 2 ^ e
           in if 2 ^ 1024 \<le> v then Infinity else Num v)"

text \<open>The product \<open>a * b\<close> of two doubles that are natural numbers.\<close>

definition js_times :: "nat \<Rightarrow> nat \<Rightarrow> jsnum" where
  "js_times a b = to_double (a * b)"

text \<open>
  \<open>Math.floor(a / b)\<close> for doubles \<open>a\<close>, \<open>b\<close> that are natural numbers, \<open>b\<close> not
  zero. The quotient is rounded to 53 bits before \<open>Math.floor\<close> sees it. With \<open>n\<close> the
  number of bits of its integer part: from 53 bits on, the rounded quotient is an integer,
  a multiple of \<open>2 ^ (n - 53)\<close>; below, it has \<open>53 - n\<close> binary places, which
  \<open>Math.floor\<close> cuts off (a quotient below one half has more places, and its floor is 0
  either way).
\<close>

definition quotient_floor :: "nat \<Rightarrow> nat \<Rightarrow> nat" where
  "quotient_floor a b =
     (let n = bits (a div b)
      in if 53 \<le> n then round_even a (b * 2 ^ (n - 53)) * 2 ^ (n - 53)
         else round_even (a * 2 ^ (53 - n)) b div 2 ^ (53 - n))"

text \<open>
  \<open>Math.floor(x / b)\<close> for \<open>x\<close> as above and a natural number \<open>b\<close>. Division by
  zero does not raise in JavaScript: \<open>0 / 0\<close> is \<open>NaN\<close>, a positive dividend gives
  \<open>Infinity\<close>; \<open>Infinity\<close> divided by a finite number stays \<open>Infinity\<close>.
\<close>

definition Math_floor_div :: "jsnum \<Rightarrow> nat \<Rightarrow> jsnum" where
  "Math_floor_div x b =
     (case x of
        Num a \<Rightarrow> (if b = 0 then (if a = 0 then NaN else Infinity) else Num (quotient_floor a b))
      | Infinity \<Rightarrow> Infinity
      | NaN \<Rightarrow> NaN)"

datatype arg = ANum jsnum | AEvt event

text \<open>
  A callback is a function of the caller: it receives its arguments, may change the
  caller's world \<open>'w\<close> and may throw. A listener is what \<open>addEventListener\<close> receives.
  An optional callback that is \<open>null\<close> or left out is \<open>None\<close>.
\<close>

type_synonym 'w callback = "arg list \<Rightarrow> 'w \<Rightarrow> unit completion \<times> 'w"

type_synonym 'w listener = "event \<Rightarrow> 'w \<Rightarrow> unit completion \<times> 'w"

text \<open>Calling a value that may be \<open>null\<close>: a \<open>TypeError\<close>, and nothing has run.\<close>

definition call_optional :: "'w callback option \<Rightarrow> 'w callback" where
  "call_optional f args w = (case f of None \<Rightarrow> (Throw TypeError, w) | Some g \<Rightarrow> g args w)"

section \<open>Promises\<close>

datatype rejection = StatusObject nat string | Thrown error

datatype 'r promise = Pending | Fulfilled 'r | Rejected rejection

text \<open>A promise settles once: \<open>resolve\<close> and \<open>reject\<close> on a settled promise do nothing.\<close>

definition resolve :: "'r \<Rightarrow> 'r promise \<Rightarrow> 'r promise" where
  "resolve v p = (case p of Pending \<Rightarrow> Fulfilled v | _ \<Rightarrow> p)"

definition reject :: "rejection \<Rightarrow> 'r promise \<Rightarrow> 'r promise" where
  "reject r p = (case p of Pending \<Rightarrow> Rejected r | _ \<Rightarrow> p)"

section \<open>The underlying handle\<close>

text \<open>
  The XMLHttpRequest object as the module sees it. \<open>native\<close> is the state inside the
  browser's object, which only the primitives of the host change and read; the module
  itself assigns \<open>onload\<close> and \<open>onerror\<close> and adds listeners to the main handle
  (\<open>listeners\<close>) and to its upload sub-handle (\<open>upload_listeners\<close>). A handler gets
  the native state at the time of the event and the promise it settles.
\<close>

type_synonym ('n, 'r) handler = "'n \<Rightarrow> 'r promise \<Rightarrow> unit completion \<times> 'r promise"

record ('n, 'w, 'r) xhr_object =
  native :: 'n
  listeners :: "(string \<times> 'w listener \<times> bool option) list"
  upload_listeners :: "(string \<times> 'w listener \<times> bool option) list"
  onload :: "('n, 'r) handler option"
  onerror :: "('n, 'r) handler option"

text \<open>
  The primitives the module consumes and does not implement: \<open>String.prototype.toUpperCase\<close>,
  and of the handle \<open>open\<close>, \<open>setRequestHeader\<close>, \<open>send\<close> (each may throw and may
  change the native state) and the attributes \<open>status\<close>, \<open>statusText\<close>,
  \<open>response\<close>. They are parameters of the model: every theorem holds for every host.
\<close>

record ('n, 'b, 'r) host =
  toUpperCase :: "string \<Rightarrow> string"
  xhr_open :: "string \<Rightarrow> string \<Rightarrow> bool \<Rightarrow> 'n \<Rightarrow> unit completion \<times> 'n"
  xhr_setRequestHeader :: "string \<Rightarrow> string \<Rightarrow> 'n \<Rightarrow> unit completion \<times> 'n"
  xhr_send :: "'b \<Rightarrow> 'n \<Rightarrow> unit completion \<times> 'n"
  xhr_status :: "'n \<Rightarrow> nat"
  xhr_statusText :: "'n \<Rightarrow> string"
  xhr_response :: "'n \<Rightarrow> 'r"

text \<open>
  \<open>addEventListener(event, f, options)\<close> appends to the target's listener list; every
  listener the module passes is a fresh closure, so none is dropped as a duplicate.
\<close>

definition addEventListener ::
  "string \<Rightarrow> 'w listener \<Rightarrow> bool option \<Rightarrow> (string \<times> 'w listener \<times> bool option) list
     \<Rightarrow> (string \<times> 'w listener \<times> bool option) list" where
  "addEventListener event f options ls = ls @ [(event, f, options)]"

section \<open>The later variant: the builder\<close>

record ('n, 'w, 'r) builder =
  xhr :: "('n, 'w, 'r) xhr_object"
  method' :: string
  url :: string
  async :: bool
  isOpen :: bool

text \<open>The constructor, on a freshly created handle with native state \<open>n\<close>.\<close>

definition new_xhr :: "'n \<Rightarrow> ('n, 'w, 'r) xhr_object" where
  "new_xhr n = \<lparr>native = n, listeners = [], upload_listeners = [], onload = None, onerror = None\<rparr>"

definition constructor :: "'n \<Rightarrow> ('n, 'w, 'r) builder" where
  "constructor n = \<lparr>xhr = new_xhr n, method' = ''GET'', url = ''/'', async = True, isOpen = False\<rparr>"

text \<open>The message of the error every guarded operation throws on an open builder.\<close>

definition open_message :: "('n, 'w, 'r) builder \<Rightarrow> string" where
  "open_message b =
     ''XMLHttpRequestPromise: XMLHttpRequest is Open, with HTTP Verb '' @ method' b
       @ '' going to URL '' @ url b"

definition setMethod ::
  "('n, 'b, 'r) host \<Rightarrow> string \<Rightarrow> ('n, 'w, 'r) builder \<Rightarrow> unit completion \<times> ('n, 'w, 'r) builder" where
  "setMethod H m b =
     (if isOpen b then (Throw (Error (open_message b)), b)
      else let m' = toUpperCase H m in
        if m' = ''GET'' \<or> m' = ''HEAD'' \<or> m' = ''POST'' \<or> m' = ''PUT'' \<or> m' = ''DELETE''
           \<or> m' = ''CONNECT'' \<or> m' = ''OPTIONS'' \<or> m' = ''TRACE'' \<or> m' = ''PATCH''
        then (Return (), b\<lparr>method' := m'\<rparr>)
        else (Throw (Error ''Invalid HTTP Verb.''), b))"



text \<open>
  \<open>openRequest\<close>: the flag is set only after the handle's \<open>open\<close> has returned; when
  \<open>open\<close> throws, its exception passes through and the builder stays closed.
\<close>

definition openRequest ::
  "('n, 'b, 'r) host \<Rightarrow> ('n, 'w, 'r) builder \<Rightarrow> unit completion \<times> ('n, 'w, 'r) builder" where
  "openRequest H b =
     (if isOpen b then (Throw (Error (open_message b)), b)
      else case xhr_open H (method' b) (url b) (async b) (native (xhr b)) of
          (Throw e, n) \<Rightarrow> (Throw e, b\<lparr>xhr := (xhr b)\<lparr>native := n\<rparr>\<rparr>)
        | (Return _, n) \<Rightarrow> (Return (), b\<lparr>xhr := (xhr b)\<lparr>native := n\<rparr>, isOpen := True\<rparr>))"


section \<open>The later variant: listeners\<close>

text \<open>
  \<open>setEventListener\<close> and \<open>setUploadEventListener\<close>: the \<open>switch\<close> on the event
  name either builds the wrapper \<open>_function\<close> or throws; only after the \<open>switch\<close> is
  the wrapper added, to the main handle by the first and to the upload handle by the second.
\<close>

definition setEventListener ::
  "string \<Rightarrow> 'w callback \<Rightarrow> 'w callback option \<Rightarrow> bool option \<Rightarrow> ('n, 'w, 'r) builder
     \<Rightarrow> unit completion \<times> ('n, 'w, 'r) builder" where
  "setEventListener event callback optionalCallback options b =
     (case
        (if event = ''abort'' then Return (\<lambda>evt. callback [AEvt evt])
         else if event = ''error'' then Return (\<lambda>evt. callback [AEvt evt])
         else if event = ''load'' then
           Return (\<lambda>evt. if target_status evt = Some 200 then callback [AEvt evt]
                        else call_optional optionalCallback [AEvt evt])
         else if event = ''loadend'' then Throw (Error (''XMLHttpRequestPromise: Event function '' @ event @ '' not implemented.''))
         else if event = ''loadstart'' then Throw (Error (''XMLHttpRequestPromise: Event function '' @ event @ '' not implemented.''))
         else if event = ''progress'' then
           Return (\<lambda>evt. if lengthComputable evt
                        then callback [ANum (Math_floor_div (js_times (loaded evt) 100) (total' evt)), AEvt evt]
                        else callback [ANum (Num 0), AEvt evt])
         else if event = ''timeout'' then Throw (Error (''XMLHttpRequestPromise: Event function '' @ event @ '' not implemented.''))
         else if event = ''readystatechange'' then Throw (Error (''XMLHttpRequestPromise: Event function '' @ event @ '' not implemented.''))
         else Throw (Error (''XMLHttpRequestPromise: Invalid listener event property '' @ event @ ''.'')))
      of Throw e \<Rightarrow> (Throw e, b)
       | Return f \<Rightarrow>
           (Return (),
            b\<lparr>xhr := (xhr b)\<lparr>listeners := addEventListener event f options (listeners (xhr b))\<rparr>\<rparr>))"

definition setUploadEventListener ::
  "string \<Rightarrow> 'w callback \<Rightarrow> 'w callback option \<Rightarrow> bool option \<Rightarrow> ('n, 'w, 'r) builder
     \<Rightarrow> unit completion \<times> ('n, 'w, 'r) builder" where
  "setUploadEventListener event callback optionalCallback options b =
     (case
        (if event = ''abort'' then Return (\<lambda>evt. callback [AEvt evt])
         else if event = ''error'' then Return (\<lambda>evt. callback [AEvt evt])
         else if event = ''load'' then
           Return (\<lambda>evt. if target_status evt = Some 200 then callback [AEvt evt]
                        else call_optional optionalCallback [AEvt evt])
         else if event = ''loadend'' then Throw (Error (''XMLHttpRequestPromise: Event function '' @ event @ '' not implemented.''))
         else if event = ''loadstart'' then Throw (Error (''XMLHttpRequestPromise: Event function '' @ event @ '' not implemented.''))
         else if event = ''progress'' then
           Return (\<lambda>evt. if lengthComputable evt
                        then callback [ANum (Math_floor_div (js_times (loaded evt) 100) (total' evt)), AEvt evt]
                        else callback [ANum (Num 0), AEvt evt])
         else if event = ''timeout'' then Throw (Error (''XMLHttpRequestPromise: Event function '' @ event @ '' not implemented.''))
         else if event = ''readystatechange'' then Throw (Error (''XMLHttpRequestPromise: Event function '' @ event @ '' not implemented.''))
         else Throw (Error (''XMLHttpRequestPromise: Invalid listener event property '' @ event @ ''.'')))
      of Throw e \<Rightarrow> (Throw e, b)
       | Return f \<Rightarrow>
           (Return (),
            b\<lparr>xhr := (xhr b)\<lparr>upload_listeners := addEventListener event f options (upload_listeners (xhr b))\<rparr>\<rparr>))"

section \<open>The later variant: sending\<close>

text \<open>
  \<open>makeRequest\<close> runs the executor of \<open>new Promise\<close>: it assigns \<open>onload\<close> and
  \<open>onerror\<close>, then calls \<open>send\<close>. An exception inside an executor rejects the new
  promise with the thrown value. The result is the promise as it is when \<open>makeRequest\<close>
  returns, for a handle that delivers its terminal event after \<open>send\<close> has returned
  (\<open>dispatch_load\<close> and \<open>dispatch_error\<close> below); a synchronous handle delivers it
  inside \<open>send\<close>, to the same handlers on the same pending promise.
\<close>

definition makeRequest ::
  "('n, 'b, 'r) host \<Rightarrow> ('n, 'w, 'r) builder \<Rightarrow> 'b \<Rightarrow> 'r promise \<times> ('n, 'w, 'r) builder" where
  "makeRequest H request requestBody =
     (let x1 = (xhr request)\<lparr>onload := Some (\<lambda>n p.
                  if 200 \<le> xhr_status H n \<and> xhr_status H n < 300
                  then (Return (), resolve (xhr_response H n) p)
                  else (Return (), reject (StatusObject (xhr_status H n) (xhr_statusText H n)) p))\<rparr>;
          x2 = x1\<lparr>onerror := Some (\<lambda>n p.
                  (Return (), reject (StatusObject (xhr_status H n) (xhr_statusText H n)) p))\<rparr>
      in case xhr_send H requestBody (native x2) of
           (Throw e, n) \<Rightarrow> (reject (Thrown e) Pending, request\<lparr>xhr := x2\<lparr>native := n\<rparr>\<rparr>)
         | (Return _, n) \<Rightarrow> (Pending, request\<lparr>xhr := x2\<lparr>native := n\<rparr>\<rparr>))"

definition sendRequest ::
  "('n, 'b, 'r) host \<Rightarrow> 'b \<Rightarrow> ('n, 'w, 'r) builder
     \<Rightarrow> 'r promise completion \<times> ('n, 'w, 'r) builder" where
  "sendRequest H body b =
     (if \<not> isOpen b
      then (Throw (Error ''XMLHttpRequestPromise: XMLHttpRequest is not open.''), b)
      else case makeRequest H b body of (p, b') \<Rightarrow> (Return p, b'))"

text \<open>
  The host delivers a terminal event by calling the handler stored in \<open>onload\<close> (load
  completion) or \<open>onerror\<close> (transport error), if there is one, on the handle as it is
  then: \<open>x\<close> is the handle, \<open>p\<close> the promise.
\<close>

definition dispatch_load :: "('n, 'w, 'r) xhr_object \<Rightarrow> 'r promise \<Rightarrow> unit completion \<times> 'r promise" where
  "dispatch_load x p = (case onload x of None \<Rightarrow> (Return (), p) | Some f \<Rightarrow> f (native x) p)"

definition dispatch_error :: "('n, 'w, 'r) xhr_object \<Rightarrow> 'r promise \<Rightarrow> unit completion \<times> 'r promise" where
  "dispatch_error x p = (case onerror x of None \<Rightarrow> (Return (), p) | Some f \<Rightarrow> f (native x) p)"

section \<open>The earlier variant\<close>

text \<open>The earlier class has no \<open>_async\<close> and no \<open>_isOpen\<close>, and no guard in its setters.\<close>

record ('n, 'w, 'r) early_builder =
  early_xhr :: "('n, 'w, 'r) xhr_object"
  early_method :: string
  early_url :: string

definition early_constructor :: "'n \<Rightarrow> ('n, 'w, 'r) early_builder" where
  "early_constructor n = \<lparr>early_xhr = new_xhr n, early_method = ''GET'', early_url = ''/''\<rparr>"

definition early_setMethod ::
  "('n, 'b, 'r) host \<Rightarrow> string \<Rightarrow> ('n, 'w, 'r) early_builder
     \<Rightarrow> unit completion \<times> ('n, 'w, 'r) early_builder" where
  "early_setMethod H m b =
     (let m' = toUpperCase H m in
        if m' = ''GET'' \<or> m' = ''HEAD'' \<or> m' = ''POST'' \<or> m' = ''PUT'' \<or> m' = ''DELETE''
           \<or> m' = ''CONNECT'' \<or> m' = ''OPTIONS'' \<or> m' = ''TRACE'' \<or> m' = ''PATCH''
        then (Return (), b\<lparr>early_method := m'\<rparr>)
        else (Throw (Error ''Invalid HTTP Verb.''), b))"

definition early_setUrl ::
  "string \<Rightarrow> ('n, 'w, 'r) early_builder \<Rightarrow> unit completion \<times> ('n, 'w, 'r) early_builder" where
  "early_setUrl u b = (Return (), b\<lparr>early_url := u\<rparr>)"

definition early_setXhrHeader ::
  "('n, 'b, 'r) host \<Rightarrow> string \<Rightarrow> string \<Rightarrow> ('n, 'w, 'r) early_builder
     \<Rightarrow> unit completion \<times> ('n, 'w, 'r) early_builder" where
  "early_setXhrHeader H headerName headerValue b =
     (case xhr_setRequestHeader H headerName headerValue (native (early_xhr b)) of
        (c, n) \<Rightarrow> (c, b\<lparr>early_xhr := (early_xhr b)\<lparr>native := n\<rparr>\<rparr>))"

definition early_setEventListener ::
  "string \<Rightarrow> 'w callback \<Rightarrow> 'w callback option \<Rightarrow> bool option \<Rightarrow> ('n, 'w, 'r) early_builder
     \<Rightarrow> unit completion \<times> ('n, 'w, 'r) early_builder" where
  "early_setEventListener event callback optionalCallback options b =
     (case
        (if event = ''abort'' then Return (\<lambda>evt. callback [AEvt evt])
         else if event = ''error'' then Return (\<lambda>evt. callback [AEvt evt])
         else if event = ''load'' then
           Return (\<lambda>evt. if target_status evt = Some 200 then callback [AEvt evt]
                        else call_optional optionalCallback [AEvt evt])
         else if event = ''loadend'' then Throw (Error (''Event function not implemented.''))
         else if event = ''loadstart'' then Throw (Error (''Event function not implemented.''))
         else if event = ''progress'' then
           Return (\<lambda>evt. if lengthComputable evt
                        then callback [ANum (Math_floor_div (js_times (loaded evt) 100) (total' evt)), AEvt evt]
                        else callback [ANum (Num 0), AEvt evt])
         else if event = ''timeout'' then Throw (Error (''Event function not implemented.''))
         else if event = ''readystatechange'' then Throw (Error (''Event function not implemented.''))
         else Throw (Error (''Invalid listener event property.'')))
      of Throw e \<Rightarrow> (Throw e, b)
       | Return f \<Rightarrow>
           (Return (),
            b\<lparr>early_xhr := (early_xhr b)\<lparr>listeners := addEventListener event f options (listeners (early_xhr b))\<rparr>\<rparr>))"

definition early_setUploadEventListener ::
  "string \<Rightarrow> 'w callback \<Rightarrow> 'w callback option \<Rightarrow> bool option \<Rightarrow> ('n, 'w, 'r) early_builder
     \<Rightarrow> unit completion \<times> ('n, 'w, 'r) early_builder" where
  "early_setUploadEventListener event callback optionalCallback options b =
     (case
        (if event = ''abort'' then Return (\<lambda>evt. callback [AEvt evt])
         else if event = ''error'' then Return (\<lambda>evt. callback [AEvt evt])
         else if event = ''load'' then
           Return (\<lambda>evt. if target_status evt = Some 200 then callback [AEvt evt]
                        else call_optional optionalCallback [AEvt evt])
         else if event = ''loadend'' then Throw (Error (''Event function not implemented.''))
         else if event = ''loadstart'' then Throw (Error (''Event function not implemented.''))
         else if event = ''progress'' then
           Return (\<lambda>evt. if lengthComputable evt
                        then callback [ANum (Math_floor_div (js_times (loaded evt) 100) (total' evt)), AEvt evt]
                        else callback [ANum (Num 0), AEvt evt])
         else if event = ''timeout'' then Throw (Error (''Event function not implemented.''))
         else if event = ''readystatechange'' then Throw (Error (''Event function not implemented.''))
         else Throw (Error (''Invalid listener event property.'')))
      of Throw e \<Rightarrow> (Throw e, b)
       | Return f \<Rightarrow>
           (Return (),
            b\<lparr>early_xhr := (early_xhr b)\<lparr>upload_listeners := addEventListener event f options (upload_listeners (early_xhr b))\<rparr>\<rparr>))"

text \<open>
  The value of \<open>this\<close> inside a function. The handlers of \<open>build\<close> are arrow functions,
  so their \<open>this\<close> is the \<open>this\<close> of the enclosing \<open>makeRequest\<close>, a
  \<open>function\<close> expression; a class body is strict code, where a plain call
  \<open>makeRequest(this, body)\<close> binds \<open>this\<close> to \<open>undefined\<close>. \<open>This_handle\<close> is the
  binding a handler receives when it is a \<open>function\<close> called by the host on the handle.
\<close>

datatype this_value = This_undefined | This_handle

text \<open>\<open>this.status\<close>: reading a property of \<open>undefined\<close> throws a \<open>TypeError\<close>.\<close>

definition this_status :: "('n, 'b, 'r) host \<Rightarrow> this_value \<Rightarrow> 'n \<Rightarrow> nat completion" where
  "this_status H this n =
     (case this of This_undefined \<Rightarrow> Throw TypeError | This_handle \<Rightarrow> Return (xhr_status H n))"

text \<open>
  \<open>makeRequest\<close> of \<open>build\<close>: the executor opens the handle (always asynchronous),
  assigns the two handlers and sends. An exception of \<open>open\<close> or \<open>send\<close> rejects the
  promise; an exception inside a handler is raised in the host's event dispatch and leaves
  the promise as it was.
\<close>

definition early_makeRequest ::
  "('n, 'b, 'r) host \<Rightarrow> this_value \<Rightarrow> ('n, 'w, 'r) early_builder \<Rightarrow> 'b
     \<Rightarrow> 'r promise \<times> ('n, 'w, 'r) early_builder" where
  "early_makeRequest H this request requestBody =
     (case xhr_open H (early_method request) (early_url request) True (native (early_xhr request)) of
        (Throw e, n) \<Rightarrow>
          (reject (Thrown e) Pending, request\<lparr>early_xhr := (early_xhr request)\<lparr>native := n\<rparr>\<rparr>)
      | (Return _, n0) \<Rightarrow>
          (let x1 = (early_xhr request)\<lparr>native := n0, onload := Some (\<lambda>n p.
                  case this_status H this n of
                    Throw e \<Rightarrow> (Throw e, p)
                  | Return s \<Rightarrow>
                      if 200 \<le> s \<and> s < 300
                      then (Return (), resolve (xhr_response H n) p)
                      else (Return (), reject (StatusObject s (xhr_statusText H n)) p))\<rparr>;
               x2 = x1\<lparr>onerror := Some (\<lambda>n p.
                  case this_status H this n of
                    Throw e \<Rightarrow> (Throw e, p)
                  | Return s \<Rightarrow> (Return (), reject (StatusObject s (xhr_statusText H n)) p))\<rparr>
           in case xhr_send H requestBody (native x2) of
                (Throw e, n) \<Rightarrow>
                  (reject (Thrown e) Pending, request\<lparr>early_xhr := x2\<lparr>native := n\<rparr>\<rparr>)
              | (Return _, n) \<Rightarrow> (Pending, request\<lparr>early_xhr := x2\<lparr>native := n\<rparr>\<rparr>)))"

definition build ::
  "('n, 'b, 'r) host \<Rightarrow> 'b \<Rightarrow> ('n, 'w, 'r) early_builder \<Rightarrow> 'r promise \<times> ('n, 'w, 'r) early_builder" where
  "build H body b = early_makeRequest H This_undefined b body"

section \<open>The mapping from event names to wrappers\<close>

text \<open>
  The table of the specification, written once: \<open>abort\<close> and \<open>error\<close> pass the event
  to the primary callback; \<open>load\<close> chooses by the status; \<open>progress\<close> passes a
  percentage; \<open>loadend\<close>, \<open>loadstart\<close>, \<open>timeout\<close> and \<open>readystatechange\<close> are
  refused as not implemented; any other name is refused as invalid. The listener
  operations of the later variant are compared with it below.
\<close>

definition listener_mapping ::
  "string \<Rightarrow> 'w callback \<Rightarrow> 'w callback option \<Rightarrow> 'w listener completion" where
  "listener_mapping event callback optionalCallback =
     (if event = ''abort'' then Return (\<lambda>evt. callback [AEvt evt])
      else if event = ''error'' then Return (\<lambda>evt. callback [AEvt evt])
      else if event = ''load'' then
        Return (\<lambda>evt. if target_status evt = Some 200 then callback [AEvt evt]
                     else call_optional optionalCallback [AEvt evt])
      else if event = ''loadend'' then
        Throw (Error (''XMLHttpRequestPromise: Event function '' @ event @ '' not implemented.''))
      else if event = ''loadstart'' then
        Throw (Error (''XMLHttpRequestPromise: Event function '' @ event @ '' not implemented.''))
      else if event = ''progress'' then
        Return (\<lambda>evt. if lengthComputable evt
                     then callback [ANum (Math_floor_div (js_times (loaded evt) 100) (total' evt)), AEvt evt]
                     else callback [ANum (Num 0), AEvt evt])
      else if event = ''timeout'' then
        Throw (Error (''XMLHttpRequestPromise: Event function '' @ event @ '' not implemented.''))
      else if event = ''readystatechange'' then
        Throw (Error (''XMLHttpRequestPromise: Event function '' @ event @ '' not implemented.''))
      else Throw (Error (''XMLHttpRequestPromise: Invalid listener event property '' @ event @ ''.'')))"

text \<open>Adding a listener to the main handle, and to the upload handle, of a builder.\<close>

definition on_main ::
  "string \<Rightarrow> 'w listener \<Rightarrow> bool option \<Rightarrow> ('n, 'w, 'r) builder \<Rightarrow> ('n, 'w, 'r) builder" where
  "on_main event f options b =
     b\<lparr>xhr := (xhr b)\<lparr>listeners := listeners (xhr b) @ [(event, f, options)]\<rparr>\<rparr>"

definition on_upload ::
  "string \<Rightarrow> 'w listener \<Rightarrow> bool option \<Rightarrow> ('n, 'w, 'r) builder \<Rightarrow> ('n, 'w, 'r) builder" where
  "on_upload event f options b =
     b\<lparr>xhr := (xhr b)\<lparr>upload_listeners := upload_listeners (xhr b) @ [(event, f, options)]\<rparr>\<rparr>"

section \<open>Sequences of calls on the later variant\<close>




section \<open>A test double for the host\<close>

text \<open>
  A host that never throws and records the primitives called on the handle, with a
  \<open>toUpperCase\<close> that is the real one on ASCII strings. It serves to evaluate the model on
  concrete inputs.
\<close>

record fake_native =
  calls :: "string list"
  status :: nat
  statusText :: string
  response :: string

definition upper_char :: "char \<Rightarrow> char" where
  "upper_char c =
     (case map_of (zip ''abcdefghijklmnopqrstuvwxyz'' ''ABCDEFGHIJKLMNOPQRSTUVWXYZ'') c of
        None \<Rightarrow> c | Some d \<Rightarrow> d)"

definition fake_host :: "(fake_native, string, string) host" where
  "fake_host =
     \<lparr>toUpperCase = map upper_char,
      xhr_open = (\<lambda>m u a n. (Return (), n\<lparr>calls := calls n @ [''open '' @ m @ '' '' @ u]\<rparr>)),
      xhr_setRequestHeader = (\<lambda>k v n. (Return (), n\<lparr>calls := calls n @ [''header '' @ k]\<rparr>)),
      xhr_send = (\<lambda>body n. (Return (), n\<lparr>calls := calls n @ [''send '' @ body]\<rparr>)),
      xhr_status = status,
      xhr_statusText = statusText,
      xhr_response = response\<rparr>"

definition fresh :: fake_native where
  "fresh = \<lparr>calls = [], status = 0, statusText = [], response = []\<rparr>"

text \<open>The native state when the exchange has ended with the given status line and body.\<close>

definition completed :: "nat \<Rightarrow> string \<Rightarrow> string \<Rightarrow> fake_native \<Rightarrow> fake_native" where
  "completed s t r n = n\<lparr>status := s, statusText := t, response := r\<rparr>"

text \<open>A callback that records its name and its arguments in the caller's world.\<close>

definition record_call :: "string \<Rightarrow> (string \<times> arg list) list callback" where
  "record_call name args w = (Return (), w @ [(name, args)])"

text \<open>The builders and events the concrete evaluations start from.\<close>

definition fresh_builder :: "(fake_native, (string \<times> arg list) list, string) builder" where
  "fresh_builder = constructor fresh"

definition fresh_early_builder :: "(fake_native, (string \<times> arg list) list, string) early_builder" where
  "fresh_early_builder = early_constructor fresh"

definition load_event :: "nat \<Rightarrow> event" where
  "load_event s = \<lparr>target_status = Some s, lengthComputable = False, loaded = 0, total' = 0\<rparr>"



section \<open>Double arithmetic on natural numbers\<close>











section \<open>The listener operations against the mapping\<close>

text \<open>
  Each listener operation of the later variant is the mapping followed by one registration:
  both sides unfold to the same term.
\<close>

lemma setEventListener_mapping:
  "setEventListener e cb ocb opts b =
     (case listener_mapping e cb ocb of
        Throw err \<Rightarrow> (Throw err, b)
      | Return f \<Rightarrow> (Return (), on_main e f opts b))"
  unfolding setEventListener_def listener_mapping_def addEventListener_def on_main_def
  by (rule refl)

lemma setUploadEventListener_mapping:
  "setUploadEventListener e cb ocb opts b =
     (case listener_mapping e cb ocb of
        Throw err \<Rightarrow> (Throw err, b)
      | Return f \<Rightarrow> (Return (), on_upload e f opts b))"
  unfolding setUploadEventListener_def listener_mapping_def addEventListener_def on_upload_def
  by (rule refl)

lemma mapping_load:
  "listener_mapping ''load'' cb ocb =
     Return (\<lambda>evt. if target_status evt = Some 200 then cb [AEvt evt]
                  else call_optional ocb [AEvt evt])"
  by (simp add: listener_mapping_def)


lemma mapping_not_implemented:
  "e \<in> {''loadend'', ''loadstart'', ''timeout'', ''readystatechange''} \<Longrightarrow>
   listener_mapping e cb ocb =
     Throw (Error (''XMLHttpRequestPromise: Event function '' @ e @ '' not implemented.''))"
  by (auto simp add: listener_mapping_def)

lemma mapping_invalid:
  "e \<notin> {''abort'', ''error'', ''load'', ''progress'', ''loadend'', ''loadstart'', ''timeout'',
        ''readystatechange''} \<Longrightarrow>
   listener_mapping e cb ocb =
     Throw (Error (''XMLHttpRequestPromise: Invalid listener event property '' @ e @ ''.''))"
  by (simp add: listener_mapping_def)

lemma early_setEventListener_load:
  "early_setEventListener ''load'' cb ocb opts eb =
     (Return (), eb\<lparr>early_xhr := (early_xhr eb)\<lparr>listeners := listeners (early_xhr eb) @
        [(''load'', \<lambda>evt. if target_status evt = Some 200 then cb [AEvt evt]
                          else call_optional ocb [AEvt evt], opts)]\<rparr>\<rparr>)"
  by (simp add: early_setEventListener_def addEventListener_def)

lemma early_setUploadEventListener_load:
  "early_setUploadEventListener ''load'' cb ocb opts eb =
     (Return (), eb\<lparr>early_xhr := (early_xhr eb)\<lparr>upload_listeners := upload_listeners (early_xhr eb) @
        [(''load'', \<lambda>evt. if target_status evt = Some 200 then cb [AEvt evt]
                          else call_optional ocb [AEvt evt], opts)]\<rparr>\<rparr>)"
  by (simp add: early_setUploadEventListener_def addEventListener_def)

text \<open>
  The earlier variant refuses the same names, with fixed messages that do not contain
  the event name.
\<close>

lemma early_events_not_implemented:
  "e \<in> {''loadend'', ''loadstart'', ''timeout'', ''readystatechange''} \<Longrightarrow>
   early_setEventListener e cb ocb opts eb = (Throw (Error ''Event function not implemented.''), eb)
   \<and> early_setUploadEventListener e cb ocb opts eb
       = (Throw (Error ''Event function not implemented.''), eb)"
  by (auto simp add: early_setEventListener_def early_setUploadEventListener_def)

lemma early_events_invalid:
  "e \<notin> {''abort'', ''error'', ''load'', ''progress'', ''loadend'', ''loadstart'', ''timeout'',
        ''readystatechange''} \<Longrightarrow>
   early_setEventListener e cb ocb opts eb = (Throw (Error ''Invalid listener event property.''), eb)
   \<and> early_setUploadEventListener e cb ocb opts eb
       = (Throw (Error ''Invalid listener event property.''), eb)"
  by (simp add: early_setEventListener_def early_setUploadEventListener_def)

lemma on_main_config [simp]:
  "isOpen (on_main e f opts b) = isOpen b" "method' (on_main e f opts b) = method' b"
  "url (on_main e f opts b) = url b" "async (on_main e f opts b) = async b"
  by (simp_all add: on_main_def)

lemma on_upload_config [simp]:
  "isOpen (on_upload e f opts b) = isOpen b" "method' (on_upload e f opts b) = method' b"
  "url (on_upload e f opts b) = url b" "async (on_upload e f opts b) = async b"
  by (simp_all add: on_upload_def)

section \<open>Concrete builders\<close>

lemma fresh_builder_closed: "\<not> isOpen fresh_builder"
  by (simp add: fresh_builder_def constructor_def)



lemma upper_post: "toUpperCase fake_host ''post'' = ''POST''"
  by (simp add: fake_host_def upper_char_def)

lemma upper_fetch: "toUpperCase fake_host ''fetch'' = ''FETCH''"
  by (simp add: fake_host_def upper_char_def)

section \<open>Completion of a sent request\<close>

text \<open>
  The later variant, for a handle that delivers its terminal event after \<open>send\<close> has
  returned, and for the promise of the latest \<open>sendRequest\<close> (a further call replaces
  both handlers): on an open builder whose \<open>send\<close> returns, \<open>sendRequest\<close> returns a
  pending promise; a load completion fulfils it with the response when the status is in
  \<open>[200, 300)\<close> and rejects it with status and status text otherwise; a transport error
  rejects it with status and status text.
\<close>

lemma sendRequest_settles:
  assumes "isOpen b" and "fst (xhr_send H body (native (xhr b))) = Return ()"
  shows "fst (sendRequest H body b) = Return Pending"
    and "dispatch_load ((xhr (snd (sendRequest H body b)))\<lparr>native := n\<rparr>) Pending =
           (Return (), if 200 \<le> xhr_status H n \<and> xhr_status H n < 300
                       then Fulfilled (xhr_response H n)
                       else Rejected (StatusObject (xhr_status H n) (xhr_statusText H n)))"
    and "dispatch_error ((xhr (snd (sendRequest H body b)))\<lparr>native := n\<rparr>) Pending =
           (Return (), Rejected (StatusObject (xhr_status H n) (xhr_statusText H n)))"
  using assms
  by (auto simp: sendRequest_def makeRequest_def dispatch_load_def dispatch_error_def
        resolve_def reject_def Let_def split: prod.splits completion.splits)

text \<open>
  The earlier variant: once \<open>open\<close> has returned inside \<open>build\<close>, both handlers throw a
  \<open>TypeError\<close> at \<open>this.status\<close> whatever the handle's state, and the promise stays as
  it was.
\<close>

lemma build_handlers_throw:
  assumes "fst (xhr_open H (early_method b) (early_url b) True (native (early_xhr b))) = Return ()"
  shows "dispatch_load ((early_xhr (snd (build H body b)))\<lparr>native := n\<rparr>) p = (Throw TypeError, p)"
    and "dispatch_error ((early_xhr (snd (build H body b)))\<lparr>native := n\<rparr>) p = (Throw TypeError, p)"
  using assms
  by (auto simp: build_def early_makeRequest_def dispatch_load_def dispatch_error_def
        this_status_def Let_def split: prod.splits completion.splits)

text \<open>
  Claim C1, at a concrete request of the earlier variant. \<open>build\<close> on a fresh builder
  returns a pending promise. When the exchange then completes with status 200, the
  \<open>onload\<close> handler throws a \<open>TypeError\<close> and the promise is still pending: it is not
  resolved with the response. A transport error ends the same way: the promise is not
  rejected.
\<close>

theorem build_load_never_settles:
  "fst (build fake_host ''a=1'' fresh_early_builder) = Pending
   \<and> dispatch_load ((early_xhr (snd (build fake_host ''a=1'' fresh_early_builder)))
        \<lparr>native := completed 200 ''OK'' ''done'' fresh\<rparr>) Pending = (Throw TypeError, Pending)
   \<and> dispatch_error ((early_xhr (snd (build fake_host ''a=1'' fresh_early_builder)))
        \<lparr>native := completed 0 [] [] fresh\<rparr>) Pending = (Throw TypeError, Pending)"
  by (simp add: build_def early_makeRequest_def dispatch_load_def dispatch_error_def
        this_status_def fake_host_def fresh_early_builder_def early_constructor_def new_xhr_def
        Let_def)

section \<open>The open flag\<close>







section \<open>The HTTP verb\<close>

text \<open>
  Claim C3 (both variants; the later one on a builder that is not open). When the
  upper-cased argument is one of the nine verbs, \<open>setMethod\<close> stores that upper-case form
  and returns; for any other argument it throws the invalid-verb error and the builder,
  with its stored method, is unchanged.
\<close>

theorem setMethod_verbs:
  "(\<not> isOpen b \<longrightarrow>
      (toUpperCase H m \<in> {''GET'', ''HEAD'', ''POST'', ''PUT'', ''DELETE'', ''CONNECT'', ''OPTIONS'',
                          ''TRACE'', ''PATCH''}
         \<longrightarrow> setMethod H m b = (Return (), b\<lparr>method' := toUpperCase H m\<rparr>))
    \<and> (toUpperCase H m \<notin> {''GET'', ''HEAD'', ''POST'', ''PUT'', ''DELETE'', ''CONNECT'', ''OPTIONS'',
                          ''TRACE'', ''PATCH''}
         \<longrightarrow> setMethod H m b = (Throw (Error ''Invalid HTTP Verb.''), b)))
   \<and> (toUpperCase H m \<in> {''GET'', ''HEAD'', ''POST'', ''PUT'', ''DELETE'', ''CONNECT'', ''OPTIONS'',
                          ''TRACE'', ''PATCH''}
         \<longrightarrow> early_setMethod H m eb = (Return (), eb\<lparr>early_method := toUpperCase H m\<rparr>))
   \<and> (toUpperCase H m \<notin> {''GET'', ''HEAD'', ''POST'', ''PUT'', ''DELETE'', ''CONNECT'', ''OPTIONS'',
                          ''TRACE'', ''PATCH''}
         \<longrightarrow> early_setMethod H m eb = (Throw (Error ''Invalid HTTP Verb.''), eb))"
  by (simp add: setMethod_def early_setMethod_def Let_def)

theorem setMethod_verbs_witness:
  "\<not> isOpen fresh_builder
   \<and> toUpperCase fake_host ''post'' = ''POST''
   \<and> setMethod fake_host ''post'' fresh_builder = (Return (), fresh_builder\<lparr>method' := ''POST''\<rparr>)
   \<and> early_setMethod fake_host ''post'' fresh_early_builder
        = (Return (), fresh_early_builder\<lparr>early_method := ''POST''\<rparr>)
   \<and> toUpperCase fake_host ''fetch'' = ''FETCH''
   \<and> setMethod fake_host ''fetch'' fresh_builder = (Throw (Error ''Invalid HTTP Verb.''), fresh_builder)
   \<and> early_setMethod fake_host ''fetch'' fresh_early_builder
        = (Throw (Error ''Invalid HTTP Verb.''), fresh_early_builder)"
  using setMethod_verbs [of fresh_builder fake_host "''post''" fresh_early_builder]
    setMethod_verbs [of fresh_builder fake_host "''fetch''" fresh_early_builder]
    fresh_builder_closed
  by (simp add: upper_post upper_fetch)

section \<open>Listeners\<close>

text \<open>
  Claim C4 (later variant). Registering a \<open>load\<close> listener with either operation
  succeeds and adds one wrapper \<open>f\<close>, to the main handle or to the upload handle. Called
  with an event whose \<open>target.status\<close> is exactly 200, \<open>f\<close> calls the primary callback
  with the event; called with any other status (another 2xx included), it calls the
  secondary callback with the event.
\<close>

theorem load_listener_dispatch:
  "\<exists>f. setEventListener ''load'' cb ocb opts b = (Return (), on_main ''load'' f opts b)
      \<and> setUploadEventListener ''load'' cb ocb opts b = (Return (), on_upload ''load'' f opts b)
      \<and> (\<forall>evt w.
            (target_status evt = Some 200 \<longrightarrow> f evt w = cb [AEvt evt] w)
          \<and> (target_status evt \<noteq> Some 200 \<longrightarrow> (\<forall>g. ocb = Some g \<longrightarrow> f evt w = g [AEvt evt] w)))"
  by (rule exI [of _ "\<lambda>evt. if target_status evt = Some 200 then cb [AEvt evt]
                          else call_optional ocb [AEvt evt]"])
     (simp add: setEventListener_mapping setUploadEventListener_mapping mapping_load
        call_optional_def)

theorem load_listener_dispatch_witness:
  "\<exists>f. setEventListener ''load'' (record_call ''primary'') (Some (record_call ''secondary'')) None
          fresh_builder = (Return (), on_main ''load'' f None fresh_builder)
      \<and> target_status (load_event 200) = Some 200
      \<and> f (load_event 200) [] = (Return (), [(''primary'', [AEvt (load_event 200)])])
      \<and> target_status (load_event 204) \<noteq> Some 200
      \<and> f (load_event 204) [] = (Return (), [(''secondary'', [AEvt (load_event 204)])])
      \<and> f (load_event 404) [] = (Return (), [(''secondary'', [AEvt (load_event 404)])])"
proof -
  from load_listener_dispatch [of "record_call ''primary''" "Some (record_call ''secondary'')" None
      fresh_builder]
  obtain f where r: "setEventListener ''load'' (record_call ''primary'')
        (Some (record_call ''secondary'')) None fresh_builder
          = (Return (), on_main ''load'' f None fresh_builder)"
    and d: "\<And>evt w. (target_status evt = Some 200 \<longrightarrow> f evt w = record_call ''primary'' [AEvt evt] w)
          \<and> (target_status evt \<noteq> Some 200 \<longrightarrow>
               (\<forall>g. Some (record_call ''secondary'') = Some g \<longrightarrow> f evt w = g [AEvt evt] w))"
    by blast
  have s: "target_status (load_event 200) = Some 200" "target_status (load_event 204) \<noteq> Some 200"
    "target_status (load_event 404) \<noteq> Some 200"
    by (simp_all add: load_event_def)
  from d [of "load_event 200" "[]"] d [of "load_event 204" "[]"] d [of "load_event 404" "[]"] s
  have "f (load_event 200) [] = (Return (), [(''primary'', [AEvt (load_event 200)])])"
    "f (load_event 204) [] = (Return (), [(''secondary'', [AEvt (load_event 204)])])"
    "f (load_event 404) [] = (Return (), [(''secondary'', [AEvt (load_event 404)])])"
    by (simp_all add: record_call_def)
  with r s show ?thesis by blast
qed




text \<open>
  Claim C6 (later variant). For every builder, callbacks and options: with the event name
  \<open>loadend\<close>, \<open>loadstart\<close>, \<open>timeout\<close> or \<open>readystatechange\<close> both listener
  operations throw the not-implemented error, whose message names the event; with a name
  outside the eight mapped names both throw the invalid-event error, whose message names the
  event. In both cases the builder is returned as it was.
\<close>

theorem unsupported_events_refused:
  "(e \<in> {''loadend'', ''loadstart'', ''timeout'', ''readystatechange''} \<longrightarrow>
      setEventListener e cb ocb opts b =
        (Throw (Error (''XMLHttpRequestPromise: Event function '' @ e @ '' not implemented.'')), b)
    \<and> setUploadEventListener e cb ocb opts b =
        (Throw (Error (''XMLHttpRequestPromise: Event function '' @ e @ '' not implemented.'')), b))
   \<and> (e \<notin> {''abort'', ''error'', ''load'', ''progress'', ''loadend'', ''loadstart'', ''timeout'',
            ''readystatechange''} \<longrightarrow>
      setEventListener e cb ocb opts b =
        (Throw (Error (''XMLHttpRequestPromise: Invalid listener event property '' @ e @ ''.'')), b)
    \<and> setUploadEventListener e cb ocb opts b =
        (Throw (Error (''XMLHttpRequestPromise: Invalid listener event property '' @ e @ ''.'')), b))"
proof (intro conjI impI)
  assume "e \<in> {''loadend'', ''loadstart'', ''timeout'', ''readystatechange''}"
  from mapping_not_implemented [OF this, of cb ocb]
  show "setEventListener e cb ocb opts b =
        (Throw (Error (''XMLHttpRequestPromise: Event function '' @ e @ '' not implemented.'')), b)"
    and "setUploadEventListener e cb ocb opts b =
        (Throw (Error (''XMLHttpRequestPromise: Event function '' @ e @ '' not implemented.'')), b)"
    by (simp_all add: setEventListener_mapping setUploadEventListener_mapping)
next
  assume "e \<notin> {''abort'', ''error'', ''load'', ''progress'', ''loadend'', ''loadstart'', ''timeout'',
            ''readystatechange''}"
  from mapping_invalid [OF this, of cb ocb]
  show "setEventListener e cb ocb opts b =
        (Throw (Error (''XMLHttpRequestPromise: Invalid listener event property '' @ e @ ''.'')), b)"
    and "setUploadEventListener e cb ocb opts b =
        (Throw (Error (''XMLHttpRequestPromise: Invalid listener event property '' @ e @ ''.'')), b)"
    by (simp_all add: setEventListener_mapping setUploadEventListener_mapping)
qed

theorem unsupported_events_refused_witness:
  "''timeout'' \<in> {''loadend'', ''loadstart'', ''timeout'', ''readystatechange''}
   \<and> setEventListener ''timeout'' (record_call ''primary'') None None fresh_builder =
        (Throw (Error ''XMLHttpRequestPromise: Event function timeout not implemented.''),
         fresh_builder)
   \<and> setUploadEventListener ''timeout'' (record_call ''primary'') None None fresh_builder =
        (Throw (Error ''XMLHttpRequestPromise: Event function timeout not implemented.''),
         fresh_builder)
   \<and> ''click'' \<notin> {''abort'', ''error'', ''load'', ''progress'', ''loadend'', ''loadstart'',
                   ''timeout'', ''readystatechange''}
   \<and> setEventListener ''click'' (record_call ''primary'') None None fresh_builder =
        (Throw (Error ''XMLHttpRequestPromise: Invalid listener event property click.''),
         fresh_builder)
   \<and> setUploadEventListener ''click'' (record_call ''primary'') None None fresh_builder =
        (Throw (Error ''XMLHttpRequestPromise: Invalid listener event property click.''),
         fresh_builder)"
  using unsupported_events_refused [of "''timeout''" "record_call ''primary''" None None fresh_builder]
    unsupported_events_refused [of "''click''" "record_call ''primary''" None None fresh_builder]
  by simp

section \<open>Sending before opening\<close>

text \<open>
  Claim C7 (later variant). On a builder that is not open, \<open>sendRequest\<close> throws the
  not-open error and the builder with its handle is as before: no \<open>onload\<close> or
  \<open>onerror\<close> handler has been assigned and the handle's \<open>send\<close> has not run, whatever
  the host's \<open>send\<close> would do.
\<close>

theorem sendRequest_not_open:
  "\<not> isOpen b \<Longrightarrow>
   sendRequest H body b = (Throw (Error ''XMLHttpRequestPromise: XMLHttpRequest is not open.''), b)"
  by (simp add: sendRequest_def)

theorem sendRequest_not_open_witness:
  "\<not> isOpen fresh_builder
   \<and> sendRequest fake_host ''a=1'' fresh_builder =
       (Throw (Error ''XMLHttpRequestPromise: XMLHttpRequest is not open.''), fresh_builder)
   \<and> calls (native (xhr (snd (sendRequest fake_host ''a=1'' fresh_builder)))) = []
   \<and> calls (native (xhr (snd (sendRequest fake_host ''a=1''
        (snd (openRequest fake_host fresh_builder)))))) = [''open GET /'', ''send a=1'']"
proof -
  have h: "\<not> isOpen fresh_builder" by (simp add: fresh_builder_def constructor_def)
  have c: "calls (native (xhr fresh_builder)) = []"
    by (simp add: fresh_builder_def constructor_def new_xhr_def fresh_def)
  have s: "calls (native (xhr (snd (sendRequest fake_host ''a=1''
        (snd (openRequest fake_host fresh_builder)))))) = [''open GET /'', ''send a=1'']"
    by (simp add: sendRequest_def makeRequest_def openRequest_def fake_host_def
          fresh_builder_def constructor_def new_xhr_def fresh_def Let_def)
  show ?thesis using h c s sendRequest_not_open [OF h, of fake_host "''a=1''"] by simp
qed

section \<open>The two listener operations compared\<close>

text \<open>
  Claim C8 (later variant). For every event name, callbacks, options and builder, either
  both operations throw the same error and leave the builder as it is, or both return and
  have registered the same wrapper \<open>f\<close> under the same name and options,
  \<open>setEventListener\<close> on the main handle and \<open>setUploadEventListener\<close> on the upload
  handle.
\<close>

theorem listeners_differ_in_handle_only:
  "(\<exists>err. setEventListener e cb ocb opts b = (Throw err, b)
          \<and> setUploadEventListener e cb ocb opts b = (Throw err, b))
   \<or> (\<exists>f. setEventListener e cb ocb opts b = (Return (), on_main e f opts b)
          \<and> setUploadEventListener e cb ocb opts b = (Return (), on_upload e f opts b))"
proof (cases "listener_mapping e cb ocb")
  case (Throw err)
  then show ?thesis
    by (simp add: setEventListener_mapping setUploadEventListener_mapping)
next
  case (Return f)
  then have "setEventListener e cb ocb opts b = (Return (), on_main e f opts b)
          \<and> setUploadEventListener e cb ocb opts b = (Return (), on_upload e f opts b)"
    by (simp add: setEventListener_mapping setUploadEventListener_mapping)
  then show ?thesis by blast
qed

text \<open>
  Claim C9 (later variant). Whenever a listener operation throws, the builder after the
  call is the builder before it: no listener has been added to either handle and the
  configuration is unchanged.
\<close>

theorem failed_registration_atomic:
  "((\<exists>err. fst (setEventListener e cb ocb opts b) = Throw err)
      \<longrightarrow> snd (setEventListener e cb ocb opts b) = b)
   \<and> ((\<exists>err. fst (setUploadEventListener e cb ocb opts b) = Throw err)
      \<longrightarrow> snd (setUploadEventListener e cb ocb opts b) = b)"
  by (cases "listener_mapping e cb ocb")
     (simp_all add: setEventListener_mapping setUploadEventListener_mapping)

theorem failed_registration_atomic_witness:
  "(\<exists>err. fst (setEventListener ''loadend'' (record_call ''primary'') None None fresh_builder) = Throw err)
   \<and> snd (setEventListener ''loadend'' (record_call ''primary'') None None fresh_builder) = fresh_builder
   \<and> listeners (xhr (snd (setEventListener ''loadend'' (record_call ''primary'') None None
        fresh_builder))) = []
   \<and> (\<exists>err. fst (setUploadEventListener ''tap'' (record_call ''primary'') None None fresh_builder) = Throw err)
   \<and> snd (setUploadEventListener ''tap'' (record_call ''primary'') None None fresh_builder) = fresh_builder
   \<and> upload_listeners (xhr (snd (setUploadEventListener ''tap'' (record_call ''primary'') None None
        fresh_builder))) = []"
proof -
  have 1: "\<exists>err. fst (setEventListener ''loadend'' (record_call ''primary'') None None fresh_builder) = Throw err"
    by (simp add: setEventListener_mapping listener_mapping_def)
  have 2: "\<exists>err. fst (setUploadEventListener ''tap'' (record_call ''primary'') None None fresh_builder) = Throw err"
    by (simp add: setUploadEventListener_mapping listener_mapping_def)
  have 3: "listeners (xhr fresh_builder) = []" "upload_listeners (xhr fresh_builder) = []"
    by (simp_all add: fresh_builder_def constructor_def new_xhr_def)
  from 1 2 3
    failed_registration_atomic [of "''loadend''" "record_call ''primary''" None None fresh_builder]
    failed_registration_atomic [of "''tap''" "record_call ''primary''" None None fresh_builder]
  show ?thesis by simp
qed

section \<open>A load listener without a secondary callback\<close>

text \<open>
  Claim C10 (both variants). A \<open>load\<close> listener registered with \<open>null\<close> as secondary
  callback is a wrapper \<open>f\<close> that, called with an event whose \<open>target.status\<close> is not
  200, throws a \<open>TypeError\<close> and leaves the caller's world untouched, whatever the primary
  callback is: the primary callback is not called instead.
\<close>

theorem null_secondary_fails:
  "(\<exists>f. setEventListener ''load'' cb None opts b = (Return (), on_main ''load'' f opts b)
        \<and> (\<forall>evt w. target_status evt \<noteq> Some 200 \<longrightarrow> f evt w = (Throw TypeError, w)))
   \<and> (\<exists>f. setUploadEventListener ''load'' cb None opts b = (Return (), on_upload ''load'' f opts b)
        \<and> (\<forall>evt w. target_status evt \<noteq> Some 200 \<longrightarrow> f evt w = (Throw TypeError, w)))
   \<and> (\<exists>f. early_setEventListener ''load'' cb None opts eb =
          (Return (), eb\<lparr>early_xhr := (early_xhr eb)\<lparr>listeners :=
             listeners (early_xhr eb) @ [(''load'', f, opts)]\<rparr>\<rparr>)
        \<and> (\<forall>evt w. target_status evt \<noteq> Some 200 \<longrightarrow> f evt w = (Throw TypeError, w)))
   \<and> (\<exists>f. early_setUploadEventListener ''load'' cb None opts eb =
          (Return (), eb\<lparr>early_xhr := (early_xhr eb)\<lparr>upload_listeners :=
             upload_listeners (early_xhr eb) @ [(''load'', f, opts)]\<rparr>\<rparr>)
        \<and> (\<forall>evt w. target_status evt \<noteq> Some 200 \<longrightarrow> f evt w = (Throw TypeError, w)))"
proof (intro conjI)
  let ?f = "\<lambda>evt. if target_status evt = Some 200 then cb [AEvt evt]
                  else call_optional None [AEvt evt]"
  have t: "\<forall>evt w. target_status evt \<noteq> Some 200 \<longrightarrow> ?f evt w = (Throw TypeError, w)"
    by (simp add: call_optional_def)
  show "\<exists>f. setEventListener ''load'' cb None opts b = (Return (), on_main ''load'' f opts b)
        \<and> (\<forall>evt w. target_status evt \<noteq> Some 200 \<longrightarrow> f evt w = (Throw TypeError, w))"
    using t by (intro exI [of _ ?f]) (simp add: setEventListener_mapping mapping_load)
  show "\<exists>f. setUploadEventListener ''load'' cb None opts b = (Return (), on_upload ''load'' f opts b)
        \<and> (\<forall>evt w. target_status evt \<noteq> Some 200 \<longrightarrow> f evt w = (Throw TypeError, w))"
    using t by (intro exI [of _ ?f]) (simp add: setUploadEventListener_mapping mapping_load)
  show "\<exists>f. early_setEventListener ''load'' cb None opts eb =
          (Return (), eb\<lparr>early_xhr := (early_xhr eb)\<lparr>listeners :=
             listeners (early_xhr eb) @ [(''load'', f, opts)]\<rparr>\<rparr>)
        \<and> (\<forall>evt w. target_status evt \<noteq> Some 200 \<longrightarrow> f evt w = (Throw TypeError, w))"
    using t by (intro exI [of _ ?f]) (simp add: early_setEventListener_load)
  show "\<exists>f. early_setUploadEventListener ''load'' cb None opts eb =
          (Return (), eb\<lparr>early_xhr := (early_xhr eb)\<lparr>upload_listeners :=
             upload_listeners (early_xhr eb) @ [(''load'', f, opts)]\<rparr>\<rparr>)
        \<and> (\<forall>evt w. target_status evt \<noteq> Some 200 \<longrightarrow> f evt w = (Throw TypeError, w))"
    using t by (intro exI [of _ ?f]) (simp add: early_setUploadEventListener_load)
qed

theorem null_secondary_fails_witness:
  "\<exists>f. setEventListener ''load'' (record_call ''primary'') None None fresh_builder
          = (Return (), on_main ''load'' f None fresh_builder)
      \<and> target_status (load_event 404) \<noteq> Some 200
      \<and> f (load_event 404) [] = (Throw TypeError, [])
      \<and> f (load_event 204) [] = (Throw TypeError, [])"
proof -
  from null_secondary_fails [of "record_call ''primary''" None fresh_builder fresh_early_builder]
  obtain f where r: "setEventListener ''load'' (record_call ''primary'') None None fresh_builder
          = (Return (), on_main ''load'' f None fresh_builder)"
    and d: "\<And>evt w. target_status evt \<noteq> Some 200 \<longrightarrow> f evt w = (Throw TypeError, w)"
    by blast
  have s: "target_status (load_event 404) \<noteq> Some 200" "target_status (load_event 204) \<noteq> Some 200"
    by (simp_all add: load_event_def)
  from d [of "load_event 404" "[]"] d [of "load_event 204" "[]"] s r
  show ?thesis by blast
qed

end
